theory Spec2Isabelle
  imports Main "HOL-Library.Sublist"
begin

section \<open>Mex::Utils of libDirectional (lib/util/Mex/Utils.h)\<close>

text \<open>
  The header holds one struct of static helpers over Eigen integer vectors and MATLAB
  array handles. An \<open>Eigen::VectorXi\<close> is a list of C \<open>int\<close> values; the helpers only
  compare and copy those values, so they are integers here. Sizes (\<open>Eigen::Index\<close>, a
  signed 64-bit type) are \<open>int\<close> where the code subtracts them, since the difference can
  be negative.

  Every way a call can end other than by returning is a value of \<open>failure\<close>:
  \<^item> \<open>BlockOutOfRange\<close>: the range assertion of Eigen's \<open>head\<close>/\<open>tail\<close> block;
  \<^item> \<open>SizeMismatch\<close>: the equal-size assertion of Eigen's coefficient-wise binary
    operations;
  \<^item> \<open>AssertionFailed msg\<close>: \<open>mxAssert\<close> of the MATLAB API, which ends the MEX function;
  \<^item> \<open>InvalidArgument msg\<close>: a thrown \<open>std::invalid_argument\<close>, the only one of the four
    that a caller can catch.
\<close>

type_synonym VectorXi = "int list"

datatype failure =
    BlockOutOfRange
  | SizeMismatch
  | AssertionFailed string
  | InvalidArgument string

fun catchable :: "failure \<Rightarrow> bool" where
  "catchable (InvalidArgument msg) = True"
| "catchable BlockOutOfRange = False"
| "catchable SizeMismatch = False"
| "catchable (AssertionFailed msg) = False"

subsection \<open>The Eigen operations the helpers call\<close>

text \<open>
  Eigen is the external library included through \<open>../../external/Eigen/Dense\<close>. Its
  operations are given here with the preconditions that Eigen asserts; a violated
  assertion ends the call (when assertions are compiled out the behaviour is undefined,
  so nothing about the result can be relied on either way).

  \<open>v.head(n)\<close> and \<open>v.tail(n)\<close> build a block of \<open>n\<close> coefficients at the front and at
  the back of \<open>v\<close>; the block's constructor asserts \<open>0 \<le> n \<le> v.size()\<close> when it is built.
\<close>

definition head :: "VectorXi \<Rightarrow> int \<Rightarrow> failure + VectorXi" where
  "head v n =
     (if 0 \<le> n \<and> n \<le> int (length v) then Inr (take (nat n) v)
      else Inl BlockOutOfRange)"

definition tail :: "VectorXi \<Rightarrow> int \<Rightarrow> failure + VectorXi" where
  "tail v n =
     (if 0 \<le> n \<and> n \<le> int (length v) then Inr (drop (length v - nat n) v)
      else Inl BlockOutOfRange)"

text \<open>
  \<open>a.cwiseMin(b)\<close>, \<open>a.cwiseMax(b)\<close> and \<open>a == b\<close> are coefficient-wise binary
  operations: each asserts that both operands have the same size.
\<close>

definition cwiseMin :: "VectorXi \<Rightarrow> VectorXi \<Rightarrow> failure + VectorXi" where
  "cwiseMin a b =
     (if length a = length b then Inr (map2 min a b) else Inl SizeMismatch)"

definition cwiseMax :: "VectorXi \<Rightarrow> VectorXi \<Rightarrow> failure + VectorXi" where
  "cwiseMax a b =
     (if length a = length b then Inr (map2 max a b) else Inl SizeMismatch)"

definition vec_eq :: "VectorXi \<Rightarrow> VectorXi \<Rightarrow> failure + bool" where
  "vec_eq a b = (if length a = length b then Inr (a = b) else Inl SizeMismatch)"

text \<open>\<open>v.isZero()\<close> on an integer vector: every coefficient equals 0.\<close>

definition isZero :: "VectorXi \<Rightarrow> bool" where
  "isZero v = list_all (\<lambda>x. x = 0) v"

subsection \<open>expandSliceDims and expandSlices\<close>

text \<open>
  The loop of \<open>expandSliceDims\<close>: \<open>for (int i = 0; i < sliceDims.size(); i++)\<close> writes
  coefficient \<open>i\<close> of the result. Both reads are guarded by the size of the vector read.
\<close>

function expandLoop :: "VectorXi \<Rightarrow> VectorXi \<Rightarrow> nat \<Rightarrow> VectorXi \<Rightarrow> VectorXi" where
  "expandLoop sliceDimsA sliceDimsB i sliceDims =
     (if i < length sliceDims
      then expandLoop sliceDimsA sliceDimsB (Suc i)
             (sliceDims[i := max (if i < length sliceDimsA then sliceDimsA ! i else 1)
                                 (if i < length sliceDimsB then sliceDimsB ! i else 1)])
      else sliceDims)"
  by pat_completeness auto
termination
  by (relation "measure (\<lambda>(a, b, i, v). length v - i)") auto

declare expandLoop.simps [simp del]

text \<open>
  The result vector is allocated with the larger of the two sizes; its storage is not
  initialised (0 stands for the unread content), and the loop writes every coefficient.
\<close>

definition expandSliceDims :: "VectorXi \<Rightarrow> VectorXi \<Rightarrow> VectorXi" where
  "expandSliceDims sliceDimsA sliceDimsB =
     expandLoop sliceDimsA sliceDimsB 0
       (replicate (max (length sliceDimsA) (length sliceDimsB)) 0)"

text \<open>
  The overload on full dimension vectors: \<open>dims.tail(dims.size() - 2)\<close> for both
  arguments, then the merge.
\<close>

definition expandSlices :: "VectorXi \<Rightarrow> VectorXi \<Rightarrow> failure + VectorXi" where
  "expandSlices dimsA dimsB =
     (case tail dimsA (int (length dimsA) - 2) of
        Inl e \<Rightarrow> Inl e
      | Inr a \<Rightarrow>
          (case tail dimsB (int (length dimsB) - 2) of
             Inl e \<Rightarrow> Inl e
           | Inr b \<Rightarrow> Inr (expandSliceDims a b)))"

subsection \<open>isValidSlice\<close>

text \<open>
  The body in the order of the source: head and tail of the candidate are built first
  (two local vectors), then the three branches are tried. In the last branch \<open>&&\<close>
  evaluates its right operand only when the left one is true, so a comparison that is
  not reached cannot fail.
\<close>

definition isValidSlice :: "VectorXi \<Rightarrow> VectorXi \<Rightarrow> VectorXi \<Rightarrow> failure + bool" where
  "isValidSlice slice sliceMins sliceMaxs =
     (let sliceDims = int (length sliceMins) in
      case head slice sliceDims of
        Inl e \<Rightarrow> Inl e
      | Inr sHead \<Rightarrow>
     (case tail slice (int (length slice) - sliceDims) of
        Inl e \<Rightarrow> Inl e
      | Inr sTail \<Rightarrow>
          if int (length slice) < sliceDims then Inr False
          else if length sHead = 0 then Inr (isZero sTail)
          else
            (case cwiseMin sliceMins sHead of
               Inl e \<Rightarrow> Inl e
             | Inr lo \<Rightarrow>
            (case vec_eq lo sliceMins of
               Inl e \<Rightarrow> Inl e
             | Inr minsOk \<Rightarrow>
                 if \<not> minsOk then Inr False
                 else
                   (case cwiseMax sliceMaxs sHead of
                      Inl e \<Rightarrow> Inl e
                    | Inr hi \<Rightarrow>
                   (case vec_eq hi sliceMaxs of
                      Inl e \<Rightarrow> Inl e
                    | Inr maxsOk \<Rightarrow>
                        if \<not> maxsOk then Inr False
                        else Inr (int (length slice) = sliceDims \<or> isZero sTail)))))))"

subsection \<open>MATLAB array handles\<close>

text \<open>
  An \<open>mxArray\<close> is opaque to the helpers; they read it through the MATLAB API only. The
  record has one field for each API function the header calls, named after it:
  whether the array is sparse, its extents (\<open>mwSize\<close> values, unsigned, so naturals; their
  count is \<open>mxGetNumberOfDimensions\<close>), and the address of its data (0 is the null
  pointer). \<open>mxGetClassID\<close> is what a type-compatibility predicate looks at.
\<close>

record mxArray =
  mxIsSparse :: bool
  mxGetDimensions :: "nat list"
  mxGetData :: nat
  mxGetClassID :: nat

definition mxGetNumberOfDimensions :: "mxArray \<Rightarrow> nat" where
  "mxGetNumberOfDimensions array = length (mxGetDimensions array)"

text \<open>
  Modelled from the spec: \<open>mxAssert\<close>, a macro of MATLAB's matrix.h, which is not among
  the sources. A sparse handle "fails with an assertion-style fatal error, not a
  recoverable error": a false condition ends the call with the message.
\<close>

definition mxAssert :: "bool \<Rightarrow> string \<Rightarrow> failure + unit" where
  "mxAssert cond msg = (if cond then Inr () else Inl (AssertionFailed msg))"

text \<open>
  \<open>std::copy\<close> from \<open>const mwSize*\<close> to \<open>int*\<close> converts every extent to a C \<open>int\<close>,
  32 bits in two's complement: the value is kept modulo \<open>2 ^ 32\<close>. (\<open>mwSize\<close> is
  \<open>size_t\<close> in MATLAB's large-array-dimensions API, so an extent can exceed the largest
  \<open>int\<close>; an extent below \<open>2 ^ 31\<close> is converted to itself.)
\<close>

definition to_int :: "nat \<Rightarrow> int" where
  "to_int d = (int d + 2 ^ 31) mod 2 ^ 32 - 2 ^ 31"

text \<open>
  \<open>numDims\<close> holds the number of axes, which the host keeps far below \<open>2 ^ 32\<close>; it is
  a natural number here.
\<close>

definition getDimensions :: "mxArray \<Rightarrow> failure + VectorXi" where
  "getDimensions array =
     (case mxAssert (\<not> mxIsSparse array) ''Array must be dense.'' of
        Inl e \<Rightarrow> Inl e
      | Inr _ \<Rightarrow>
          (let numDims = mxGetNumberOfDimensions array;
               dims = mxGetDimensions array
           in Inr (map to_int (take numDims dims))))"

subsection \<open>checkArrayType\<close>

text \<open>
  Modelled from the spec: the type-compatibility predicate family, "indexed by element
  type, answering: is this array's runtime element type compatible with native type T",
  whose header is not among the sources. An element type is named by the class id its
  arrays carry (6 is \<open>mxDOUBLE_CLASS\<close>). It is used for concrete arrays only; the
  properties of \<open>checkArrayType\<close> hold for every predicate.
\<close>

definition Traits_isValidArray :: "nat \<Rightarrow> mxArray \<Rightarrow> bool" where
  "Traits_isValidArray T array = (mxGetClassID array = T)"

text \<open>
  \<open>Traits<Scalar>::isValidArray\<close> is the parameter \<open>isValidArray\<close>. The cast \<open>(Scalar*)\<close>
  keeps the address that \<open>mxGetData\<close> returns. The \<open>const\<close> overload has the same body.
\<close>

definition checkArrayType :: "(mxArray \<Rightarrow> bool) \<Rightarrow> mxArray \<Rightarrow> failure + nat" where
  "checkArrayType isValidArray array =
     (if \<not> isValidArray array then Inl (InvalidArgument ''MX array of invalid type.'')
      else Inr (mxGetData array))"

subsection \<open>checkRows and checkCols\<close>

text \<open>\<open>std::to_string\<close> on an \<open>int\<close>: the decimal digits, after a minus sign when negative.\<close>

fun digits :: "nat \<Rightarrow> string" where
  "digits n =
     (if n < 10 then [char_of (48 + n)]
      else digits (n div 10) @ [char_of (48 + n mod 10)])"

declare digits.simps [simp del]

definition to_string :: "int \<Rightarrow> string" where
  "to_string i = (if i < 0 then CHR ''-'' # digits (nat (- i)) else digits (nat i))"

text \<open>
  Modelled from the spec: the compile-time "any size acceptable" sentinel for row and
  column checks, \<open>Eigen::Dynamic\<close>. Eigen's headers, which are not among the sources,
  declare it as -1; the properties of \<open>checkRows\<close> and \<open>checkCols\<close> hold whatever its value.
\<close>

definition Dynamic :: int where
  "Dynamic = -1"

text \<open>The template argument \<open>r\<close> (\<open>c\<close>) is the first parameter.\<close>

definition checkRows :: "int \<Rightarrow> int \<Rightarrow> failure + int" where
  "checkRows r rows =
     (if r = Dynamic \<or> r = rows then Inr rows
      else Inl (InvalidArgument
             (''Mismatch between given ('' @ to_string rows @
              '') and expected ('' @ to_string r @
              '') number of rows.'')))"

definition checkCols :: "int \<Rightarrow> int \<Rightarrow> failure + int" where
  "checkCols c cols =
     (if c = Dynamic \<or> c = cols then Inr cols
      else Inl (InvalidArgument
             (''Mismatch between given ('' @ to_string cols @
              '') and expected ('' @ to_string c @
              '') number of columns.'')))"

section \<open>Properties of the slice-shape merge\<close>

lemma expandLoop_length:
  "length (expandLoop a b i v) = length v"
proof (induction a b i v rule: expandLoop.induct)
  case (1 a b i v)
  show ?case
  proof (cases "i < length v")
    case True
    then show ?thesis using 1 by (subst expandLoop.simps) simp
  next
    case False
    then show ?thesis by (subst expandLoop.simps) simp
  qed
qed

lemma expandLoop_nth:
  "j < length v \<Longrightarrow>
   expandLoop a b i v ! j =
     (if i \<le> j then max (if j < length a then a ! j else 1) (if j < length b then b ! j else 1)
      else v ! j)"
proof (induction a b i v rule: expandLoop.induct)
  case (1 a b i v)
  show ?case
  proof (cases "i < length v")
    case True
    let ?w = "v[i := max (if i < length a then a ! i else 1) (if i < length b then b ! i else 1)]"
    have step: "expandLoop a b i v = expandLoop a b (Suc i) ?w"
      using True by (subst expandLoop.simps) simp
    have jw: "j < length ?w" using 1(2) by simp
    have ih: "expandLoop a b (Suc i) ?w ! j =
        (if Suc i \<le> j
         then max (if j < length a then a ! j else 1) (if j < length b then b ! j else 1)
         else ?w ! j)"
      using 1(1) [OF True jw] .
    show ?thesis
    proof (cases "i = j")
      case True
      then show ?thesis using step ih 1(2) by simp
    next
      case False
      then show ?thesis using step ih 1(2) by auto
    qed
  next
    case False
    then show ?thesis using 1(2) by (subst expandLoop.simps) simp
  qed
qed

lemma expandSliceDims_length:
  "length (expandSliceDims a b) = max (length a) (length b)"
  by (simp add: expandSliceDims_def expandLoop_length)

lemma expandSliceDims_nth:
  "i < max (length a) (length b) \<Longrightarrow>
   expandSliceDims a b ! i =
     max (if i < length a then a ! i else 1) (if i < length b then b ! i else 1)"
  by (simp add: expandSliceDims_def expandLoop_nth)

text \<open>
  C3: for all slice-shape vectors A and B, \<open>expandSliceDims A B\<close> has length
  \<open>max (len A) (len B)\<close>, and its i-th coefficient is the larger of \<open>A[i]\<close> (1 when
  \<open>i\<close> is beyond A) and \<open>B[i]\<close> (1 when \<open>i\<close> is beyond B).
\<close>

theorem expandSliceDims_spec:
  "length (expandSliceDims A B) = max (length A) (length B) \<and>
   (\<forall>i < max (length A) (length B).
      expandSliceDims A B ! i =
        max (if i < length A then A ! i else 1) (if i < length B then B ! i else 1))"
  by (simp add: expandSliceDims_length expandSliceDims_nth)

theorem expandSliceDims_spec_witness:
  "length (expandSliceDims [2, 3, 1] [4]) = 3 \<and>
   expandSliceDims [2, 3, 1] [4] ! 0 = 4 \<and>
   expandSliceDims [2, 3, 1] [4] ! 1 = 3 \<and>
   expandSliceDims [2, 3, 1] [4] ! 2 = 1"
  using expandSliceDims_spec [of "[2, 3, 1]" "[4]"] by simp

text \<open>
  C4: the merge is commutative: \<open>expandSliceDims A B = expandSliceDims B A\<close> for all
  slice-shape vectors A and B.
\<close>

theorem expandSliceDims_commute:
  "expandSliceDims A B = expandSliceDims B A"
proof (rule nth_equalityI)
  show "length (expandSliceDims A B) = length (expandSliceDims B A)"
    by (simp add: expandSliceDims_length max.commute)
next
  fix i
  assume "i < length (expandSliceDims A B)"
  then have i: "i < max (length A) (length B)"
    by (simp add: expandSliceDims_length)
  then have i': "i < max (length B) (length A)"
    by (simp add: max.commute)
  show "expandSliceDims A B ! i = expandSliceDims B A ! i"
    using expandSliceDims_nth [OF i] expandSliceDims_nth [OF i']
    by (simp add: max.commute)
qed

section \<open>Properties of expandSlices\<close>

lemma tail_strip2:
  "2 \<le> length dims \<Longrightarrow> tail dims (int (length dims) - 2) = Inr (drop 2 dims)"
proof -
  assume len: "2 \<le> length dims"
  then have "length dims - nat (int (length dims) - 2) = 2" by arith
  with len show ?thesis by (simp add: tail_def)
qed

lemma tail_short:
  "length dims < 2 \<Longrightarrow> tail dims (int (length dims) - 2) = Inl BlockOutOfRange"
  by (simp add: tail_def)

text \<open>
  C5: for full shape vectors dimsA and dimsB of length at least 2, \<open>expandSlices\<close>
  returns what \<open>expandSliceDims\<close> returns on the two vectors without their first two
  coefficients.
\<close>

theorem expandSlices_strips_two:
  "2 \<le> length dimsA \<Longrightarrow> 2 \<le> length dimsB \<Longrightarrow>
   expandSlices dimsA dimsB = Inr (expandSliceDims (drop 2 dimsA) (drop 2 dimsB))"
  by (simp add: expandSlices_def tail_strip2)

theorem expandSlices_strips_two_witness:
  "expandSlices [7, 8, 2, 3] [5, 6, 4] = Inr (expandSliceDims [2, 3] [4]) \<and>
   expandSliceDims [2, 3] [4] = [4, 3]"
proof
  show "expandSlices [7, 8, 2, 3] [5, 6, 4] = Inr (expandSliceDims [2, 3] [4])"
    using expandSlices_strips_two [of "[7, 8, 2, 3]" "[5, 6, 4]"] by simp
  show "expandSliceDims [2, 3] [4] = [4, 3]"
    by code_simp
qed

text \<open>
  C9: \<open>expandSlices\<close> takes \<open>tail(size - 2)\<close> of each argument with no guard on the size.
  When both arguments have at least 2 coefficients, neither extraction leaves the vector
  and the call returns; when one of them has 0 or 1 coefficients, its extraction asks for
  a negative count and the call ends in the block's range assertion. The extraction
  itself is out of range exactly when the vector has fewer than 2 coefficients.
\<close>

theorem expandSlices_range:
  "(2 \<le> length dimsA \<and> 2 \<le> length dimsB \<longrightarrow>
      (\<exists>r. expandSlices dimsA dimsB = Inr r)) \<and>
   (length dimsA < 2 \<or> length dimsB < 2 \<longrightarrow>
      expandSlices dimsA dimsB = Inl BlockOutOfRange) \<and>
   ((tail dimsA (int (length dimsA) - 2) = Inl BlockOutOfRange) = (length dimsA < 2))"
proof (intro conjI impI)
  assume "2 \<le> length dimsA \<and> 2 \<le> length dimsB"
  then show "\<exists>r. expandSlices dimsA dimsB = Inr r"
    by (simp add: expandSlices_def tail_strip2)
next
  assume short: "length dimsA < 2 \<or> length dimsB < 2"
  show "expandSlices dimsA dimsB = Inl BlockOutOfRange"
  proof (cases "length dimsA < 2")
    case True
    then show ?thesis by (simp add: expandSlices_def tail_short)
  next
    case False
    then have a: "2 \<le> length dimsA" by simp
    from False short have b: "length dimsB < 2" by simp
    show ?thesis by (simp add: expandSlices_def tail_strip2 [OF a] tail_short [OF b])
  qed
next
  show "(tail dimsA (int (length dimsA) - 2) = Inl BlockOutOfRange) = (length dimsA < 2)"
  proof (cases "length dimsA < 2")
    case True
    then show ?thesis by (simp add: tail_short)
  next
    case False
    then have "2 \<le> length dimsA" by simp
    then show ?thesis by (simp add: tail_strip2)
  qed
qed

theorem expandSlices_range_witness:
  "(\<exists>r. expandSlices [3, 4] [3, 4, 2] = Inr r) \<and>
   expandSlices [3] [3, 4, 2] = Inl BlockOutOfRange \<and>
   expandSlices [3, 4, 2] [] = Inl BlockOutOfRange \<and>
   tail [3] (int (length [3 :: int]) - 2) = Inl BlockOutOfRange"
  using expandSlices_range [of "[3, 4]" "[3, 4, 2]"]
        expandSlices_range [of "[3]" "[3, 4, 2]"]
        expandSlices_range [of "[3, 4, 2]" "[]"]
  by simp

section \<open>Properties of isValidSlice\<close>

lemma map2_min_eq:
  "length a = length b \<Longrightarrow>
   (map2 min a b = a) = (\<forall>i<length a. a ! i \<le> (b ! i :: int))"
proof -
  have m: "\<And>x y::int. (min x y = x) = (x \<le> y)" by auto
  assume "length a = length b"
  then show ?thesis by (simp add: list_eq_iff_nth_eq m)
qed

lemma map2_max_eq:
  "length a = length b \<Longrightarrow>
   (map2 max a b = a) = (\<forall>i<length a. (b ! i :: int) \<le> a ! i)"
proof -
  have m: "\<And>x y::int. (max x y = x) = (y \<le> x)" by auto
  assume "length a = length b"
  then show ?thesis by (simp add: list_eq_iff_nth_eq m)
qed

lemma isZero_drop:
  assumes D: "D \<le> length s"
  shows "isZero (drop D s) = (\<forall>j. D \<le> j \<and> j < length s \<longrightarrow> s ! j = 0)"
proof -
  have "isZero (drop D s) = (\<forall>i < length s - D. s ! (D + i) = 0)"
    by (simp add: isZero_def list_all_length D)
  also have "\<dots> = (\<forall>j. D \<le> j \<and> j < length s \<longrightarrow> s ! j = 0)"
  proof
    assume h: "\<forall>i < length s - D. s ! (D + i) = 0"
    show "\<forall>j. D \<le> j \<and> j < length s \<longrightarrow> s ! j = 0"
    proof (intro allI impI)
      fix j assume j: "D \<le> j \<and> j < length s"
      then have "j - D < length s - D" by arith
      with h have "s ! (D + (j - D)) = 0" by blast
      with j show "s ! j = 0" by simp
    qed
  next
    assume h: "\<forall>j. D \<le> j \<and> j < length s \<longrightarrow> s ! j = 0"
    show "\<forall>i < length s - D. s ! (D + i) = 0"
      using h by auto
  qed
  finally show ?thesis .
qed

lemma head_ok: "D \<le> length s \<Longrightarrow> head s (int D) = Inr (take D s)"
  by (simp add: head_def)

lemma tail_ok: "D \<le> length s \<Longrightarrow> tail s (int (length s) - int D) = Inr (drop D s)"
  by (simp add: tail_def nat_diff_distrib')

lemma isValidSlice_short:
  "length slice < length sliceMins \<Longrightarrow>
   isValidSlice slice sliceMins sliceMaxs = Inl BlockOutOfRange"
  by (simp add: isValidSlice_def head_def)

lemma isValidSlice_in_range:
  assumes "length sliceMaxs = length sliceMins" and "length sliceMins \<le> length slice"
  shows "isValidSlice slice sliceMins sliceMaxs =
     Inr ((\<forall>i<length sliceMins. sliceMins ! i \<le> slice ! i \<and> slice ! i \<le> sliceMaxs ! i) \<and>
          (\<forall>j. length sliceMins \<le> j \<and> j < length slice \<longrightarrow> slice ! j = 0))"
proof -
  let ?D = "length sliceMins"
  have lt: "length (take ?D slice) = ?D" using assms by simp
  have lo: "(map2 min sliceMins (take ?D slice) = sliceMins) =
      (\<forall>i<?D. sliceMins ! i \<le> slice ! i)"
    using map2_min_eq [of sliceMins "take ?D slice"] lt by simp
  have hi: "(map2 max sliceMaxs (take ?D slice) = sliceMaxs) =
      (\<forall>i<?D. slice ! i \<le> sliceMaxs ! i)"
    using map2_max_eq [of sliceMaxs "take ?D slice"] lt assms(1) by simp
  have z: "isZero (drop ?D slice) = (\<forall>j. ?D \<le> j \<and> j < length slice \<longrightarrow> slice ! j = 0)"
    using isZero_drop [OF assms(2)] .
  show ?thesis
  proof (cases "?D = 0")
    case True
    then show ?thesis
      using assms z by (simp add: isValidSlice_def head_def tail_def Let_def)
  next
    case False
    have full: "int (length slice) = int ?D \<Longrightarrow> isZero (drop ?D slice)"
      by (simp add: isZero_def)
    show ?thesis
      using False assms lo hi z full
      by (auto simp add: isValidSlice_def head_ok tail_ok Let_def
            cwiseMin_def cwiseMax_def vec_eq_def)
  qed
qed

text \<open>
  C1: a candidate strictly shorter than the bounds length D should make \<open>isValidSlice\<close>
  return false. The source has that guard (\<open>if (slice.size() < sliceDims) return false\<close>),
  but builds \<open>slice.head(sliceDims)\<close> and \<open>slice.tail(slice.size() - sliceDims)\<close> before
  it: for the candidate [3] and bounds of length 2 the head asks for 2 of 1 coefficients,
  and the call ends in the block's range assertion without reaching the guard.
\<close>

theorem isValidSlice_short_candidate:
  "isValidSlice [3] [2, 2] [5, 5] = Inl BlockOutOfRange"
  by (simp add: isValidSlice_def head_def)

text \<open>
  C2: for a candidate of length at least D, where D is the common length of the lower
  and the upper bounds, \<open>isValidSlice\<close> returns true if and only if
  \<open>sliceMins[i] \<le> slice[i] \<le> sliceMaxs[i]\<close> for every \<open>i < D\<close> and every coefficient of
  the candidate at an index from D on is zero. In particular, with empty bounds it
  returns true if and only if every coefficient of the candidate is zero, and true for
  the empty candidate.
\<close>

theorem isValidSlice_spec:
  "(length sliceMaxs = length sliceMins \<and> length sliceMins \<le> length slice \<longrightarrow>
      isValidSlice slice sliceMins sliceMaxs =
        Inr ((\<forall>i<length sliceMins. sliceMins ! i \<le> slice ! i \<and> slice ! i \<le> sliceMaxs ! i) \<and>
             (\<forall>j. length sliceMins \<le> j \<and> j < length slice \<longrightarrow> slice ! j = 0))) \<and>
   isValidSlice slice [] [] = Inr (\<forall>x\<in>set slice. x = 0) \<and>
   isValidSlice [] [] [] = Inr True"
proof (intro conjI impI)
  assume "length sliceMaxs = length sliceMins \<and> length sliceMins \<le> length slice"
  then show "isValidSlice slice sliceMins sliceMaxs =
        Inr ((\<forall>i<length sliceMins. sliceMins ! i \<le> slice ! i \<and> slice ! i \<le> sliceMaxs ! i) \<and>
             (\<forall>j. length sliceMins \<le> j \<and> j < length slice \<longrightarrow> slice ! j = 0))"
    by (simp add: isValidSlice_in_range)
next
  show "isValidSlice slice [] [] = Inr (\<forall>x\<in>set slice. x = 0)"
    by (simp add: isValidSlice_def head_def tail_def isZero_def list_all_iff)
next
  show "isValidSlice [] [] [] = Inr True"
    by (simp add: isValidSlice_def head_def tail_def isZero_def)
qed

theorem isValidSlice_spec_witness:
  "isValidSlice [3, 4] [2, 2] [5, 5] = Inr True \<and>
   isValidSlice [1, 4] [2, 2] [5, 5] = Inr False \<and>
   isValidSlice [3, 4, 0] [2, 2] [5, 5] = Inr True \<and>
   isValidSlice [3, 4, 1] [2, 2] [5, 5] = Inr False \<and>
   isValidSlice [0, 0] [] [] = Inr True \<and>
   isValidSlice [0, 7] [] [] = Inr False"
  using isValidSlice_spec [of "[5, 5]" "[2, 2]" "[3, 4]"]
        isValidSlice_spec [of "[5, 5]" "[2, 2]" "[1, 4]"]
        isValidSlice_spec [of "[5, 5]" "[2, 2]" "[3, 4, 0]"]
        isValidSlice_spec [of "[5, 5]" "[2, 2]" "[3, 4, 1]"]
        isValidSlice_spec [of "[]" "[]" "[0, 0]"]
        isValidSlice_spec [of "[]" "[]" "[0, 7]"]
  by (auto simp: nth_Cons' less_Suc_eq)

lemma isValidSlice_no_mismatch:
  assumes "length sliceMaxs = length sliceMins"
  shows "isValidSlice slice sliceMins sliceMaxs \<noteq> Inl SizeMismatch"
proof (cases "length sliceMins \<le> length slice")
  case True
  then show ?thesis using isValidSlice_in_range [OF assms True] by simp
next
  case False
  then show ?thesis by (simp add: isValidSlice_short)
qed

lemma isValidSlice_mismatch:
  assumes ne: "length sliceMaxs \<noteq> length sliceMins"
      and len: "length sliceMins \<le> length slice"
      and D: "sliceMins \<noteq> []"
      and lo: "\<forall>i<length sliceMins. sliceMins ! i \<le> slice ! i"
  shows "isValidSlice slice sliceMins sliceMaxs = Inl SizeMismatch"
proof -
  let ?D = "length sliceMins"
  have lt: "length (take ?D slice) = ?D" using len by simp
  have m: "map2 min sliceMins (take ?D slice) = sliceMins"
    using map2_min_eq [of sliceMins "take ?D slice"] lt lo by simp
  show ?thesis
    using ne len D m
    by (simp add: isValidSlice_def head_ok tail_ok Let_def cwiseMin_def cwiseMax_def vec_eq_def)
qed

text \<open>
  C10: \<open>isValidSlice\<close> reads the bounds length D from \<open>sliceMins\<close> alone and compares the
  head of the candidate, which has D coefficients, with \<open>sliceMaxs\<close> without a check of its
  size. When both bounds have the same length, no coefficient-wise operation of the call
  meets operands of different sizes. When they differ, the comparison with the upper
  bounds \<open>sliceMaxs.cwiseMax(sHead)\<close> has operands of different sizes for every head the
  call can build, and the call ends there whenever it reaches the comparison (the
  candidate has at least D coefficients, D is not 0 and the lower bounds hold).
\<close>

theorem isValidSlice_bounds_lengths:
  "(length sliceMaxs = length sliceMins \<longrightarrow>
      isValidSlice slice sliceMins sliceMaxs \<noteq> Inl SizeMismatch) \<and>
   (length sliceMaxs \<noteq> length sliceMins \<and> head slice (int (length sliceMins)) = Inr sHead \<longrightarrow>
      cwiseMax sliceMaxs sHead = Inl SizeMismatch) \<and>
   (length sliceMaxs \<noteq> length sliceMins \<and> length sliceMins \<le> length slice \<and>
    sliceMins \<noteq> [] \<and> (\<forall>i<length sliceMins. sliceMins ! i \<le> slice ! i) \<longrightarrow>
      isValidSlice slice sliceMins sliceMaxs = Inl SizeMismatch)"
proof (intro conjI impI)
  assume "length sliceMaxs = length sliceMins"
  then show "isValidSlice slice sliceMins sliceMaxs \<noteq> Inl SizeMismatch"
    by (rule isValidSlice_no_mismatch)
next
  assume h: "length sliceMaxs \<noteq> length sliceMins \<and>
             head slice (int (length sliceMins)) = Inr sHead"
  then have "length sHead = length sliceMins"
    by (auto simp: head_def split: if_splits)
  with h show "cwiseMax sliceMaxs sHead = Inl SizeMismatch"
    by (simp add: cwiseMax_def)
next
  assume "length sliceMaxs \<noteq> length sliceMins \<and> length sliceMins \<le> length slice \<and>
    sliceMins \<noteq> [] \<and> (\<forall>i<length sliceMins. sliceMins ! i \<le> slice ! i)"
  then show "isValidSlice slice sliceMins sliceMaxs = Inl SizeMismatch"
    by (simp add: isValidSlice_mismatch)
qed

theorem isValidSlice_bounds_lengths_witness:
  "isValidSlice [3, 4] [2, 2] [5, 5] \<noteq> Inl SizeMismatch \<and>
   cwiseMax [5] [3, 4] = Inl SizeMismatch \<and>
   isValidSlice [3, 4] [2, 2] [5] = Inl SizeMismatch"
  using isValidSlice_bounds_lengths [of "[5, 5]" "[2, 2]" "[3, 4]" "[3, 4]"]
        isValidSlice_bounds_lengths [of "[5]" "[2, 2]" "[3, 4]" "[3, 4]"]
  by (auto simp: head_def nth_Cons' less_Suc_eq)

section \<open>Properties of checkRows and checkCols\<close>

lemma digits_nonempty: "digits n \<noteq> []"
  by (subst digits.simps) simp

lemma to_string_nonempty: "to_string i \<noteq> []"
  by (simp add: to_string_def digits_nonempty)

lemma checkRows_mismatch_contains:
  assumes "r \<noteq> Dynamic" and "r \<noteq> n"
  shows "\<exists>msg. checkRows r n = Inl (InvalidArgument msg) \<and>
           sublist (''given ('' @ to_string n @ '')'') msg \<and>
           sublist (''expected ('' @ to_string r @ '')'') msg"
proof -
  let ?msg = "''Mismatch between given ('' @ to_string n @
              '') and expected ('' @ to_string r @ '') number of rows.''"
  have c: "checkRows r n = Inl (InvalidArgument ?msg)"
    using assms by (simp add: checkRows_def)
  have g: "?msg = ''Mismatch between '' @ (''given ('' @ to_string n @ '')'') @
             ('' and expected ('' @ to_string r @ '') number of rows.'')"
    by simp
  have e: "?msg = (''Mismatch between given ('' @ to_string n @ '') and '') @
             (''expected ('' @ to_string r @ '')'') @ '' number of rows.''"
    by simp
  have "sublist (''given ('' @ to_string n @ '')'') ?msg"
    by (subst g) (rule sublist_appendI)
  moreover have "sublist (''expected ('' @ to_string r @ '')'') ?msg"
    by (subst e) (rule sublist_appendI)
  ultimately show ?thesis using c by blast
qed

lemma checkCols_mismatch_contains:
  assumes "c \<noteq> Dynamic" and "c \<noteq> n"
  shows "\<exists>msg. checkCols c n = Inl (InvalidArgument msg) \<and>
           sublist (''given ('' @ to_string n @ '')'') msg \<and>
           sublist (''expected ('' @ to_string c @ '')'') msg"
proof -
  let ?msg = "''Mismatch between given ('' @ to_string n @
              '') and expected ('' @ to_string c @ '') number of columns.''"
  have r: "checkCols c n = Inl (InvalidArgument ?msg)"
    using assms by (simp add: checkCols_def)
  have g: "?msg = ''Mismatch between '' @ (''given ('' @ to_string n @ '')'') @
             ('' and expected ('' @ to_string c @ '') number of columns.'')"
    by simp
  have e: "?msg = (''Mismatch between given ('' @ to_string n @ '') and '') @
             (''expected ('' @ to_string c @ '')'') @ '' number of columns.''"
    by simp
  have "sublist (''given ('' @ to_string n @ '')'') ?msg"
    by (subst g) (rule sublist_appendI)
  moreover have "sublist (''expected ('' @ to_string c @ '')'') ?msg"
    by (subst e) (rule sublist_appendI)
  ultimately show ?thesis using r by blast
qed

text \<open>
  C6: for every runtime count n and expected count e, \<open>checkRows\<close> and \<open>checkCols\<close> return
  n unchanged when e is \<open>Eigen::Dynamic\<close> or equals n; otherwise they raise an
  invalid-argument error whose message contains the given count n (as \<open>given (n)\<close>) and
  the expected count e (as \<open>expected (e)\<close>), both in decimal.
\<close>

theorem checkRows_checkCols_spec:
  "(e = Dynamic \<or> e = n \<longrightarrow> checkRows e n = Inr n \<and> checkCols e n = Inr n) \<and>
   (e \<noteq> Dynamic \<and> e \<noteq> n \<longrightarrow>
      (\<exists>msg. checkRows e n = Inl (InvalidArgument msg) \<and>
         sublist (''given ('' @ to_string n @ '')'') msg \<and>
         sublist (''expected ('' @ to_string e @ '')'') msg) \<and>
      (\<exists>msg. checkCols e n = Inl (InvalidArgument msg) \<and>
         sublist (''given ('' @ to_string n @ '')'') msg \<and>
         sublist (''expected ('' @ to_string e @ '')'') msg))"
proof (intro conjI impI)
  assume h: "e = Dynamic \<or> e = n"
  then show "checkRows e n = Inr n" by (auto simp: checkRows_def)
  from h show "checkCols e n = Inr n" by (auto simp: checkCols_def)
next
  assume h: "e \<noteq> Dynamic \<and> e \<noteq> n"
  show "\<exists>msg. checkRows e n = Inl (InvalidArgument msg) \<and>
         sublist (''given ('' @ to_string n @ '')'') msg \<and>
         sublist (''expected ('' @ to_string e @ '')'') msg"
    using h checkRows_mismatch_contains [of e n] by blast
  show "\<exists>msg. checkCols e n = Inl (InvalidArgument msg) \<and>
         sublist (''given ('' @ to_string n @ '')'') msg \<and>
         sublist (''expected ('' @ to_string e @ '')'') msg"
    using h checkCols_mismatch_contains [of e n] by blast
qed

theorem checkRows_checkCols_spec_witness:
  "checkRows 2 2 = Inr 2 \<and> checkCols 2 2 = Inr 2 \<and>
   checkRows Dynamic 7 = Inr 7 \<and> checkCols Dynamic 7 = Inr 7 \<and>
   (\<exists>msg. checkRows 2 3 = Inl (InvalidArgument msg) \<and>
      sublist (''given ('' @ to_string 3 @ '')'') msg \<and>
      sublist (''expected ('' @ to_string 2 @ '')'') msg) \<and>
   (\<exists>msg. checkCols 2 3 = Inl (InvalidArgument msg) \<and>
      sublist (''given ('' @ to_string 3 @ '')'') msg \<and>
      sublist (''expected ('' @ to_string 2 @ '')'') msg) \<and>
   to_string 3 = ''3'' \<and> to_string 2 = ''2'' \<and>
   checkRows 2 3 =
     Inl (InvalidArgument ''Mismatch between given (3) and expected (2) number of rows.'')"
proof -
  have a: "checkRows 2 2 = Inr 2 \<and> checkCols 2 2 = Inr 2"
    using checkRows_checkCols_spec [of 2 2] by simp
  have b: "checkRows Dynamic 7 = Inr 7 \<and> checkCols Dynamic 7 = Inr 7"
    using checkRows_checkCols_spec [of Dynamic 7] by simp
  have c: "(\<exists>msg. checkRows 2 3 = Inl (InvalidArgument msg) \<and>
      sublist (''given ('' @ to_string 3 @ '')'') msg \<and>
      sublist (''expected ('' @ to_string 2 @ '')'') msg) \<and>
   (\<exists>msg. checkCols 2 3 = Inl (InvalidArgument msg) \<and>
      sublist (''given ('' @ to_string 3 @ '')'') msg \<and>
      sublist (''expected ('' @ to_string 2 @ '')'') msg)"
    using checkRows_checkCols_spec [of 2 3] by (simp add: Dynamic_def)
  have d: "to_string 3 = ''3''" "to_string 2 = ''2''"
    by code_simp+
  have f: "checkRows 2 3 =
     Inl (InvalidArgument ''Mismatch between given (3) and expected (2) number of rows.'')"
    by code_simp
  from a b c d f show ?thesis by blast
qed

section \<open>Properties of checkArrayType\<close>

text \<open>
  C7, as stated, promises a non-null pointer for every compatible array. The source
  returns what \<open>mxGetData\<close> returns and never compares it with null: for a compatible
  array without data (an empty matrix), whose data pointer is null, the result is the
  null pointer.
\<close>

theorem checkArrayType_null_counterexample:
  "Traits_isValidArray 6
     \<lparr>mxIsSparse = False, mxGetDimensions = [0, 0], mxGetData = 0, mxGetClassID = 6\<rparr> \<and>
   checkArrayType (Traits_isValidArray 6)
     \<lparr>mxIsSparse = False, mxGetDimensions = [0, 0], mxGetData = 0, mxGetClassID = 6\<rparr>
     = Inr 0"
  by (simp add: checkArrayType_def Traits_isValidArray_def)

text \<open>
  C7, amended: \<open>checkArrayType\<close> raises an invalid-argument error, with the fixed message
  \<open>MX array of invalid type.\<close>, if and only if the array is incompatible with the scalar
  type according to the type-compatibility predicate; on a compatible array it returns
  the array's raw data pointer, null when that pointer is null.
\<close>

theorem checkArrayType_spec:
  "((checkArrayType isValidArray array = Inl (InvalidArgument ''MX array of invalid type.''))
      = (\<not> isValidArray array)) \<and>
   ((\<exists>e. checkArrayType isValidArray array = Inl e) = (\<not> isValidArray array)) \<and>
   (isValidArray array \<longrightarrow> checkArrayType isValidArray array = Inr (mxGetData array))"
  by (simp add: checkArrayType_def)

theorem checkArrayType_spec_witness:
  "checkArrayType (Traits_isValidArray 6)
     \<lparr>mxIsSparse = False, mxGetDimensions = [3, 4], mxGetData = 4096, mxGetClassID = 6\<rparr>
     = Inr 4096 \<and>
   checkArrayType (Traits_isValidArray 6)
     \<lparr>mxIsSparse = False, mxGetDimensions = [3, 4], mxGetData = 4096, mxGetClassID = 7\<rparr>
     = Inl (InvalidArgument ''MX array of invalid type.'')"
  using checkArrayType_spec [of "Traits_isValidArray 6"
          "\<lparr>mxIsSparse = False, mxGetDimensions = [3, 4], mxGetData = 4096, mxGetClassID = 6\<rparr>"]
        checkArrayType_spec [of "Traits_isValidArray 6"
          "\<lparr>mxIsSparse = False, mxGetDimensions = [3, 4], mxGetData = 4096, mxGetClassID = 7\<rparr>"]
  by (simp add: Traits_isValidArray_def)

section \<open>Properties of getDimensions\<close>

lemma to_int_small: "d < 2 ^ 31 \<Longrightarrow> to_int d = int d"
proof -
  assume "d < 2 ^ 31"
  then have "int d < 2 ^ 31" by (metis of_nat_less_iff of_nat_numeral of_nat_power)
  then show ?thesis by (simp add: to_int_def)
qed

text \<open>
  C8, as stated, promises the vector of per-axis extents for every dense array. The
  result is a vector of C \<open>int\<close>, and \<open>std::copy\<close> converts each \<open>mwSize\<close> extent to it:
  for the dense, empty array of shape \<open>2 ^ 31\<close> by 0 the first coefficient returned is
  \<open>- (2 ^ 31)\<close>, not the extent.
\<close>

theorem getDimensions_wraps_counterexample:
  "getDimensions \<lparr>mxIsSparse = False, mxGetDimensions = [2147483648, 0],
                  mxGetData = 0, mxGetClassID = 6\<rparr> = Inr [-2147483648, 0]"
  by (simp add: getDimensions_def mxAssert_def mxGetNumberOfDimensions_def to_int_def)

text \<open>
  C8, amended: applied to a dense array, \<open>getDimensions\<close> returns a vector whose length is
  the array's number of axes, and when every extent is below \<open>2 ^ 31\<close> that vector is the
  vector of the per-axis extents; applied to a sparse array it fails through the
  assertion \<open>Array must be dense.\<close>, which is not the catchable invalid-argument error.
\<close>

theorem getDimensions_spec:
  "(mxIsSparse array \<longrightarrow>
      getDimensions array = Inl (AssertionFailed ''Array must be dense.'') \<and>
      \<not> catchable (AssertionFailed ''Array must be dense.'')) \<and>
   (\<not> mxIsSparse array \<longrightarrow>
      (\<exists>v. getDimensions array = Inr v \<and> length v = mxGetNumberOfDimensions array)) \<and>
   (\<not> mxIsSparse array \<and> (\<forall>d \<in> set (mxGetDimensions array). d < 2 ^ 31) \<longrightarrow>
      getDimensions array = Inr (map int (mxGetDimensions array)))"
proof (intro conjI impI)
  assume "mxIsSparse array"
  then show "getDimensions array = Inl (AssertionFailed ''Array must be dense.'')"
    by (simp add: getDimensions_def mxAssert_def)
next
  show "\<not> catchable (AssertionFailed ''Array must be dense.'')" by simp
next
  assume "\<not> mxIsSparse array"
  then show "\<exists>v. getDimensions array = Inr v \<and> length v = mxGetNumberOfDimensions array"
    by (simp add: getDimensions_def mxAssert_def mxGetNumberOfDimensions_def)
next
  assume h: "\<not> mxIsSparse array \<and> (\<forall>d \<in> set (mxGetDimensions array). d < 2 ^ 31)"
  then have "map to_int (mxGetDimensions array) = map int (mxGetDimensions array)"
    by (simp add: to_int_small)
  with h show "getDimensions array = Inr (map int (mxGetDimensions array))"
    by (simp add: getDimensions_def mxAssert_def mxGetNumberOfDimensions_def)
qed

theorem getDimensions_spec_witness:
  "getDimensions \<lparr>mxIsSparse = False, mxGetDimensions = [3, 4, 2],
                  mxGetData = 4096, mxGetClassID = 6\<rparr> = Inr [3, 4, 2] \<and>
   getDimensions \<lparr>mxIsSparse = True, mxGetDimensions = [3, 4],
                  mxGetData = 4096, mxGetClassID = 6\<rparr>
     = Inl (AssertionFailed ''Array must be dense.'')"
  using getDimensions_spec [of "\<lparr>mxIsSparse = False, mxGetDimensions = [3, 4, 2],
                  mxGetData = 4096, mxGetClassID = 6\<rparr>"]
        getDimensions_spec [of "\<lparr>mxIsSparse = True, mxGetDimensions = [3, 4],
                  mxGetData = 4096, mxGetClassID = 6\<rparr>"]
  by simp

end
